theory Spec2Isabelle
  imports Complex_Main "HOL-Library.Sublist" "HOL-Library.Code_Target_Nat"
begin

section \<open>Values of the host language\<close>

text \<open>
  A JavaScript string is a sequence of UTF-16 code units, and \<open>length\<close> counts code
  units. A string is therefore a list of code units, each a natural number; \<open>lit\<close>
  turns an ASCII literal into its code units.
\<close>

type_synonym jsstring = "nat list"

definition lit :: "string \<Rightarrow> jsstring" where
  "lit s = map of_char s"

text \<open>
  A JavaScript number is a double. The finite doubles are rational numbers, so a number is
  a rational or one of the three non-finite values; rounding to the nearest double and
  the sign of zero are not part of the model. The comparisons follow the language: every
  comparison with \<open>NaN\<close> is false.
\<close>

datatype number = Finite rat | NaN | PosInfinity | NegInfinity

fun num_le :: "number \<Rightarrow> number \<Rightarrow> bool" where
  "num_le NaN _ = False"
| "num_le _ NaN = False"
| "num_le (Finite a) (Finite b) = (a \<le> b)"
| "num_le NegInfinity _ = True"
| "num_le _ PosInfinity = True"
| "num_le _ _ = False"

definition num_ge :: "number \<Rightarrow> number \<Rightarrow> bool" where
  "num_ge a b = num_le b a"

fun isFinite :: "number \<Rightarrow> bool" where
  "isFinite (Finite _) = True"
| "isFinite _ = False"

definition toNumber :: "nat \<Rightarrow> number" where
  "toNumber n = Finite (of_nat n)"

section \<open>Options and the settings resolver (vocabulary.ts)\<close>

datatype VocabularyLanguage = En | Ko

datatype VocabularyLevel = Beginner | Intermediate | Advanced

text \<open>
  \<open>VocabularyOptions\<close>: the three optional fields are \<open>None\<close> when absent. The
  settings row has the columns of \<open>user_vocabulary_settings\<close>; its first two fields
  are prefixed here because the options record already uses their names.
\<close>

record VocabularyOptions =
  language :: VocabularyLanguage
  maxWords :: "number option"
  minLength :: "number option"
  level :: "VocabularyLevel option"

record UserVocabularySettingsRow =
  row_language :: jsstring
  row_level :: jsstring
  max_words :: number
  min_length :: number

definition DEFAULT_VOCABULARY_OPTIONS :: VocabularyOptions where
  "DEFAULT_VOCABULARY_OPTIONS =
     \<lparr>language = En, maxWords = Some (Finite 30), minLength = Some (Finite 2),
      level = Some Intermediate\<rparr>"

text \<open>\<open>Number(x)\<close> of a number is the number itself.\<close>

definition rowToOptions :: "UserVocabularySettingsRow \<Rightarrow> VocabularyOptions" where
  "rowToOptions row =
     (let lang = (if row_language row = lit ''ko'' then Ko else En);
          lv = (if row_level row = lit ''beginner'' then Beginner
                else if row_level row = lit ''advanced'' then Advanced
                else Intermediate);
          maxWords' = max_words row;
          minLength' = min_length row
      in \<lparr>language = lang,
          maxWords =
            (if isFinite maxWords' \<and> num_ge maxWords' (Finite 1) \<and> num_le maxWords' (Finite 200)
             then Some maxWords' else maxWords DEFAULT_VOCABULARY_OPTIONS),
          minLength =
            (if isFinite minLength' \<and> num_ge minLength' (Finite 1) \<and> num_le minLength' (Finite 20)
             then Some minLength' else minLength DEFAULT_VOCABULARY_OPTIONS),
          level = Some lv\<rparr>)"

text \<open>
  The lookup is an injected collaborator; a lookup that resolves gives a row or nothing
  (\<open>null\<close>).
\<close>

definition getVocabularyOptionsForUser ::
  "jsstring \<Rightarrow> (jsstring \<Rightarrow> UserVocabularySettingsRow option) \<Rightarrow> VocabularyOptions" where
  "getVocabularyOptionsForUser userId getSettings =
     (case getSettings userId of
        Some row \<Rightarrow> rowToOptions row
      | None \<Rightarrow> DEFAULT_VOCABULARY_OPTIONS)"

section \<open>Strings\<close>

text \<open>
  \<open>trim\<close> removes the white space and line terminators of the language from both
  ends; the regular-expression class \<open>\s\<close> is the same set of code units.
\<close>

definition isWhiteSpace :: "nat \<Rightarrow> bool" where
  "isWhiteSpace c \<longleftrightarrow>
     c \<in> set [0x9, 0xA, 0xB, 0xC, 0xD, 0x20, 0xA0, 0x1680, 0x2028, 0x2029, 0x202F,
              0x205F, 0x3000, 0xFEFF] \<or> (0x2000 \<le> c \<and> c \<le> 0x200A)"

definition trim :: "jsstring \<Rightarrow> jsstring" where
  "trim s = rev (dropWhile isWhiteSpace (rev (dropWhile isWhiteSpace s)))"

fun indexOf :: "jsstring \<Rightarrow> nat \<Rightarrow> nat option" where
  "indexOf [] c = None"
| "indexOf (x # xs) c = (if x = c then Some 0 else map_option Suc (indexOf xs c))"

text \<open>\<open>substring\<close> is only called with \<open>start \<le> end\<close>.\<close>

definition substring :: "jsstring \<Rightarrow> nat \<Rightarrow> nat \<Rightarrow> jsstring" where
  "substring s start end = take (end - start) (drop start s)"

definition isDigit :: "nat \<Rightarrow> bool" where
  "isDigit c \<longleftrightarrow> 0x30 \<le> c \<and> c \<le> 0x39"

definition hexValue :: "nat \<Rightarrow> nat option" where
  "hexValue c =
     (if 0x30 \<le> c \<and> c \<le> 0x39 then Some (c - 0x30)
      else if 0x41 \<le> c \<and> c \<le> 0x46 then Some (c - 0x41 + 10)
      else if 0x61 \<le> c \<and> c \<le> 0x66 then Some (c - 0x61 + 10)
      else None)"

definition digitsValue :: "jsstring \<Rightarrow> nat" where
  "digitsValue ds = foldl (\<lambda>acc d. 10 * acc + (d - 0x30)) 0 ds"

section \<open>JSON.parse\<close>

text \<open>
  \<open>JSON.parse\<close> belongs to the host language. It is modelled after the JSON grammar:
  a lexer, then a stack machine over the tokens. A number literal denotes its exact
  decimal value. An object keeps its members in source order; reading a property takes
  the last member with that name, as the engine does for duplicate names.
\<close>

datatype json =
    JNull
  | JBool bool
  | JNumber number
  | JString jsstring
  | JArray "json list"
  | JObject "(jsstring \<times> json) list"

definition getProp :: "(jsstring \<times> json) list \<Rightarrow> jsstring \<Rightarrow> json option" where
  "getProp members name = map_of (rev members) name"

datatype token =
    LBracket | RBracket | LBrace | RBrace | Comma | Colon
  | TString jsstring | TNumber number | TTrue | TFalse | TNull

definition isJsonWs :: "nat \<Rightarrow> bool" where
  "isJsonWs c \<longleftrightarrow> c = 0x20 \<or> c = 0x9 \<or> c = 0xA \<or> c = 0xD"

definition simpleEscape :: "nat \<Rightarrow> nat option" where
  "simpleEscape e =
     (if e = 0x22 then Some 0x22
      else if e = 0x5C then Some 0x5C
      else if e = 0x2F then Some 0x2F
      else if e = 0x62 then Some 0x8
      else if e = 0x66 then Some 0xC
      else if e = 0x6E then Some 0xA
      else if e = 0x72 then Some 0xD
      else if e = 0x74 then Some 0x9
      else None)"

definition hex4 :: "nat \<Rightarrow> nat \<Rightarrow> nat \<Rightarrow> nat \<Rightarrow> nat option" where
  "hex4 a b c d =
     (case (hexValue a, hexValue b, hexValue c, hexValue d) of
        (Some w, Some x, Some y, Some z) \<Rightarrow> Some (((w * 16 + x) * 16 + y) * 16 + z)
      | _ \<Rightarrow> None)"

text \<open>
  \<open>lexString\<close> reads a string literal after its opening quote and returns the string
  and the text after the closing quote.
\<close>

fun lexString :: "jsstring \<Rightarrow> jsstring \<Rightarrow> (jsstring \<times> jsstring) option" where
  "lexString [] acc = None"
| "lexString (c # cs) acc =
     (if c = 0x22 then Some (rev acc, cs)
      else if c = 0x5C then
        (case cs of
           [] \<Rightarrow> None
         | e # cs' \<Rightarrow>
             (if e = 0x75 then
                (case cs' of
                   a # b # c' # d # cs'' \<Rightarrow>
                     (case hex4 a b c' d of
                        Some u \<Rightarrow> lexString cs'' (u # acc)
                      | None \<Rightarrow> None)
                 | _ \<Rightarrow> None)
              else
                (case simpleEscape e of
                   Some u \<Rightarrow> lexString cs' (u # acc)
                 | None \<Rightarrow> None)))
      else if c < 0x20 then None
      else lexString cs (c # acc))"

text \<open>
  \<open>lexNumber\<close> reads a number literal: an optional minus, an integer part without
  a leading zero, an optional fraction, an optional exponent.
\<close>

definition lexExponent :: "jsstring \<Rightarrow> (int \<times> jsstring) option" where
  "lexExponent s =
     (case s of
        [] \<Rightarrow> Some (0, s)
      | e # r \<Rightarrow>
          (if e = 0x65 \<or> e = 0x45 then
             (let (neg, r') = (case r of
                                 [] \<Rightarrow> (False, r)
                               | g # r'' \<Rightarrow> if g = 0x2D then (True, r'')
                                            else if g = 0x2B then (False, r'')
                                            else (False, r));
                  ds = takeWhile isDigit r'
              in if ds = [] then None
                 else Some (if neg then - int (digitsValue ds) else int (digitsValue ds),
                            dropWhile isDigit r'))
           else Some (0, s)))"

definition lexFraction :: "jsstring \<Rightarrow> (jsstring \<times> jsstring) option" where
  "lexFraction s =
     (case s of
        [] \<Rightarrow> Some ([], s)
      | p # r \<Rightarrow>
          (if p = 0x2E then
             (let ds = takeWhile isDigit r
              in if ds = [] then None else Some (ds, dropWhile isDigit r))
           else Some ([], s)))"

definition scale10 :: "rat \<Rightarrow> int \<Rightarrow> rat" where
  "scale10 q e = (if e < 0 then q / 10 ^ nat (- e) else q * 10 ^ nat e)"

definition lexNumber :: "jsstring \<Rightarrow> (number \<times> jsstring) option" where
  "lexNumber s =
     (let (neg, s1) = (case s of
                         [] \<Rightarrow> (False, s)
                       | m # r \<Rightarrow> if m = 0x2D then (True, r) else (False, s));
          ip = (case s1 of
                  [] \<Rightarrow> []
                | z # r \<Rightarrow> if z = 0x30 then [z] else takeWhile isDigit s1);
          s2 = drop (length ip) s1
      in if ip = [] then None
         else
           (case lexFraction s2 of
              None \<Rightarrow> None
            | Some (fp, s3) \<Rightarrow>
                (case lexExponent s3 of
                   None \<Rightarrow> None
                 | Some (ex, s4) \<Rightarrow>
                     (let mag = scale10 (of_nat (digitsValue (ip @ fp))) (ex - int (length fp))
                      in Some (Finite (if neg then - mag else mag), s4)))))"

lemma lexString_shorter: "lexString s acc = Some (v, rest) \<Longrightarrow> length rest < length s"
proof (induction "length s" arbitrary: s acc rule: less_induct)
  case less
  note IH = less.hyps
  show ?case
  proof (cases s)
    case Nil
    with less.prems show ?thesis by simp
  next
  case s: (Cons c cs)
  note 2 = less.prems [unfolded s]
  have "length rest < length (c # cs)"
  proof (cases "c = 0x22")
    case True
    with 2 show ?thesis by simp
  next
    case nq: False
    show ?thesis
    proof (cases "c = 0x5C")
      case bs: True
      show ?thesis
      proof (cases cs)
        case Nil
        with 2 nq bs show ?thesis by simp
      next
        case (Cons e cs')
        show ?thesis
        proof (cases "e = 0x75")
          case u: True
          from 2 nq bs Cons u obtain a b c' d cs'' w where
            cs': "cs' = a # b # c' # d # cs''" and h: "hex4 a b c' d = Some w"
            and r: "lexString cs'' (w # acc) = Some (v, rest)"
            by (auto split: list.splits option.splits)
          have "length cs'' < length s" using s Cons cs' by simp
          from IH [OF this r] show ?thesis
            using Cons cs' by simp
        next
          case nu: False
          from 2 nq bs Cons nu obtain w where h: "simpleEscape e = Some w"
            and r: "lexString cs' (w # acc) = Some (v, rest)"
            by (auto split: option.splits)
          have "length cs' < length s" using s Cons by simp
          from IH [OF this r] show ?thesis
            using Cons by simp
        qed
      qed
    next
      case nbs: False
      from 2 nq nbs have r: "lexString cs (c # acc) = Some (v, rest)"
        by (auto split: if_splits)
      have "length cs < length s" using s by simp
      from IH [OF this r] show ?thesis by simp
    qed
  qed
  then show ?thesis using s by simp
  qed
qed

lemma lexFraction_shorter: "lexFraction s = Some (v, rest) \<Longrightarrow> length rest \<le> length s"
  by (auto simp: lexFraction_def Let_def split: list.splits if_splits
      intro: le_trans [OF length_dropWhile_le])

lemma lexExponent_shorter: "lexExponent s = Some (v, rest) \<Longrightarrow> length rest \<le> length s"
  by (auto simp: lexExponent_def Let_def split: list.splits if_splits
      intro: le_trans [OF length_dropWhile_le])

lemma lexNumber_shorter:
  assumes "lexNumber s = Some (v, rest)"
  shows "length rest < length s"
proof -
  obtain neg s1 where ns: "(neg, s1) = (case s of [] \<Rightarrow> (False, s)
      | m # r \<Rightarrow> if m = 0x2D then (True, r) else (False, s))"
    by (metis surj_pair)
  define ip where "ip = (case s1 of [] \<Rightarrow> []
      | z # r \<Rightarrow> if z = 0x30 then [z] else takeWhile isDigit s1)"
  have s1: "length s1 \<le> length s"
    using ns by (auto split: list.splits if_splits)
  have ip_le: "length ip \<le> length s1"
    by (auto simp: ip_def length_takeWhile_le split: list.splits)
  from assms ns [symmetric] have ne: "ip \<noteq> []"
    and rest: "\<exists>fp s3 ex. lexFraction (drop (length ip) s1) = Some (fp, s3) \<and>
        lexExponent s3 = Some (ex, rest)"
    by (auto simp: lexNumber_def Let_def ip_def split: option.splits if_splits prod.splits)
  from rest obtain fp s3 ex where
    "lexFraction (drop (length ip) s1) = Some (fp, s3)" "lexExponent s3 = Some (ex, rest)"
    by blast
  then have "length rest \<le> length (drop (length ip) s1)"
    using lexFraction_shorter lexExponent_shorter le_trans by blast
  moreover have "0 < length ip" using ne by simp
  ultimately show ?thesis using ip_le s1 unfolding length_drop by linarith
qed

definition startsWith :: "jsstring \<Rightarrow> jsstring \<Rightarrow> bool" where
  "startsWith s p = prefix p s"

function tokenize :: "jsstring \<Rightarrow> token list option" where
  "tokenize [] = Some []"
| "tokenize (c # cs) =
     (if isJsonWs c then tokenize cs
      else if c = 0x5B then map_option (Cons LBracket) (tokenize cs)
      else if c = 0x5D then map_option (Cons RBracket) (tokenize cs)
      else if c = 0x7B then map_option (Cons LBrace) (tokenize cs)
      else if c = 0x7D then map_option (Cons RBrace) (tokenize cs)
      else if c = 0x2C then map_option (Cons Comma) (tokenize cs)
      else if c = 0x3A then map_option (Cons Colon) (tokenize cs)
      else if c = 0x22 then
        (case lexString cs [] of
           None \<Rightarrow> None
         | Some (str, rest) \<Rightarrow> map_option (Cons (TString str)) (tokenize rest))
      else if c = 0x2D \<or> isDigit c then
        (case lexNumber (c # cs) of
           None \<Rightarrow> None
         | Some (n, rest) \<Rightarrow> map_option (Cons (TNumber n)) (tokenize rest))
      else if startsWith (c # cs) (lit ''true'') then
        map_option (Cons TTrue) (tokenize (drop 3 cs))
      else if startsWith (c # cs) (lit ''false'') then
        map_option (Cons TFalse) (tokenize (drop 4 cs))
      else if startsWith (c # cs) (lit ''null'') then
        map_option (Cons TNull) (tokenize (drop 3 cs))
      else None)"
  by pat_completeness auto
termination
  by (relation "measure length")
    (auto dest: lexString_shorter lexNumber_shorter)

text \<open>
  The parser is a stack machine. A frame is an array or an object under construction
  (members in reverse) or a member name waiting for its value; the mode says which
  tokens may come next.
\<close>

datatype frame = FArr "json list" | FObj "(jsstring \<times> json) list" | FKey jsstring

datatype mode = PValue | PValueOrClose | PKeyOrClose | PKey | PColon | PCommaOrClose | PDone json

fun reduce :: "json \<Rightarrow> frame list \<Rightarrow> (mode \<times> frame list) option" where
  "reduce v [] = Some (PDone v, [])"
| "reduce v (FArr es # st) = Some (PCommaOrClose, FArr (v # es) # st)"
| "reduce v (FKey k # FObj ms # st) = Some (PCommaOrClose, FObj ((k, v) # ms) # st)"
| "reduce v _ = None"

fun startValue :: "token \<Rightarrow> frame list \<Rightarrow> (mode \<times> frame list) option" where
  "startValue (TString s) st = reduce (JString s) st"
| "startValue (TNumber n) st = reduce (JNumber n) st"
| "startValue TTrue st = reduce (JBool True) st"
| "startValue TFalse st = reduce (JBool False) st"
| "startValue TNull st = reduce JNull st"
| "startValue LBracket st = Some (PValueOrClose, FArr [] # st)"
| "startValue LBrace st = Some (PKeyOrClose, FObj [] # st)"
| "startValue _ st = None"

fun closeArray :: "frame list \<Rightarrow> (mode \<times> frame list) option" where
  "closeArray (FArr es # st) = reduce (JArray (rev es)) st"
| "closeArray _ = None"

fun closeObject :: "frame list \<Rightarrow> (mode \<times> frame list) option" where
  "closeObject (FObj ms # st) = reduce (JObject (rev ms)) st"
| "closeObject _ = None"

fun memberName :: "token \<Rightarrow> frame list \<Rightarrow> (mode \<times> frame list) option" where
  "memberName (TString k) st = Some (PColon, FKey k # st)"
| "memberName _ st = None"

fun afterComma :: "frame list \<Rightarrow> (mode \<times> frame list) option" where
  "afterComma (FArr es # st) = Some (PValue, FArr es # st)"
| "afterComma (FObj ms # st) = Some (PKey, FObj ms # st)"
| "afterComma _ = None"

definition pstep :: "token \<Rightarrow> mode \<times> frame list \<Rightarrow> (mode \<times> frame list) option" where
  "pstep t ps =
     (case ps of (m, st) \<Rightarrow>
        (case m of
           PValue \<Rightarrow> startValue t st
         | PValueOrClose \<Rightarrow> if t = RBracket then closeArray st else startValue t st
         | PKeyOrClose \<Rightarrow> if t = RBrace then closeObject st else memberName t st
         | PKey \<Rightarrow> memberName t st
         | PColon \<Rightarrow> if t = Colon then Some (PValue, st) else None
         | PCommaOrClose \<Rightarrow>
             if t = Comma then afterComma st
             else if t = RBracket then closeArray st
             else if t = RBrace then closeObject st
             else None
         | PDone v \<Rightarrow> None))"

fun run :: "token list \<Rightarrow> mode \<times> frame list \<Rightarrow> json option" where
  "run [] (PDone v, st) = Some v"
| "run [] _ = None"
| "run (t # ts) ps = (case pstep t ps of None \<Rightarrow> None | Some ps' \<Rightarrow> run ts ps')"

definition JSON_parse :: "jsstring \<Rightarrow> json option" where
  "JSON_parse s =
     (case tokenize s of None \<Rightarrow> None | Some ts \<Rightarrow> run ts (PValue, []))"

section \<open>The response parser (vocabulary.ts)\<close>

text \<open>
  \<open>VocabularyEntry\<close>. Every field but \<open>word\<close> is optional.
\<close>

record VocabularyEntry =
  word :: jsstring
  score :: "number option"
  meaning :: "jsstring option"
  example :: "jsstring option"
  synonyms :: "jsstring list option"
  occurrences :: "number option"
  songTitle :: "jsstring option"
  songArtist :: "jsstring option"

datatype error =
    MissingApiKey
  | InvalidJson
  | ModelFailure
  | NoLyricsFound
  | RangeError
  | UniqueViolation

text \<open>
  The bracket scan of \<open>parseVocabularyResponse\<close>: \<open>matchingEnd\<close> runs the loop
  from index \<open>i\<close> over the rest of the text and returns the index at which the depth is
  zero after the update, if there is one.
\<close>

fun matchingEnd :: "jsstring \<Rightarrow> int \<Rightarrow> nat \<Rightarrow> nat option" where
  "matchingEnd [] depth i = None"
| "matchingEnd (c # cs) depth i =
     (let depth' = (if c = 0x5B then depth + 1 else if c = 0x5D then depth - 1 else depth)
      in if depth' = 0 then Some i else matchingEnd cs depth' (Suc i))"

definition jsonCandidate :: "jsstring \<Rightarrow> jsstring" where
  "jsonCandidate trimmed =
     (case indexOf trimmed 0x5B of
        None \<Rightarrow> trimmed
      | Some firstBracket \<Rightarrow>
          (case matchingEnd (drop firstBracket trimmed) 0 firstBracket of
             None \<Rightarrow> trimmed
           | Some i \<Rightarrow> substring trimmed firstBracket (i + 1)))"

text \<open>
  The first filter keeps the elements that are objects with a string \<open>word\<close>. An
  array is an object too, but it has no property \<open>word\<close>.
\<close>

fun hasStringWord :: "json \<Rightarrow> bool" where
  "hasStringWord (JObject ms) =
     (case getProp ms (lit ''word'') of Some (JString w) \<Rightarrow> True | _ \<Rightarrow> False)"
| "hasStringWord _ = False"

fun stringsOf :: "json list \<Rightarrow> jsstring list" where
  "stringsOf [] = []"
| "stringsOf (JString s # vs) = s # stringsOf vs"
| "stringsOf (v # vs) = stringsOf vs"

definition normalizeSynonyms :: "json option \<Rightarrow> jsstring list option" where
  "normalizeSynonyms raw =
     (case raw of
        Some (JArray vs) \<Rightarrow>
          (let syn = filter (\<lambda>s. length s > 0) (map trim (stringsOf vs))
           in if length syn = 0 then None else Some syn)
      | _ \<Rightarrow> None)"

definition numberField :: "json option \<Rightarrow> number option" where
  "numberField raw = (case raw of Some (JNumber n) \<Rightarrow> Some n | _ \<Rightarrow> None)"

definition stringField :: "json option \<Rightarrow> jsstring option" where
  "stringField raw = (case raw of Some (JString s) \<Rightarrow> Some s | _ \<Rightarrow> None)"

fun normalizeEntry :: "json \<Rightarrow> VocabularyEntry" where
  "normalizeEntry (JObject ms) =
     \<lparr>word = trim (case getProp ms (lit ''word'') of Some (JString w) \<Rightarrow> w | _ \<Rightarrow> []),
      score = numberField (getProp ms (lit ''score'')),
      meaning = stringField (getProp ms (lit ''meaning'')),
      example = stringField (getProp ms (lit ''example'')),
      synonyms = normalizeSynonyms (getProp ms (lit ''synonyms'')),
      occurrences = None, songTitle = None, songArtist = None\<rparr>"
| "normalizeEntry _ =
     \<lparr>word = [], score = None, meaning = None, example = None, synonyms = None,
      occurrences = None, songTitle = None, songArtist = None\<rparr>"

definition normalized :: "json list \<Rightarrow> number \<Rightarrow> VocabularyEntry list" where
  "normalized list minLength' =
     filter (\<lambda>e. num_ge (toNumber (length (word e))) minLength')
       (map normalizeEntry (filter hasStringWord list))"

text \<open>
  \<open>toLowerCase\<close> of the host language depends on the Unicode case mapping, which is
  not part of the repository; it is the parameter \<open>lc\<close> of every function that
  uses it. \<open>countByWord\<close> is the first loop over \<open>normalized\<close>, \<open>dedupe\<close> the
  filter with the set \<open>seen\<close>.
\<close>

fun countByWord ::
  "(jsstring \<Rightarrow> jsstring) \<Rightarrow> VocabularyEntry list \<Rightarrow> (jsstring \<rightharpoonup> nat) \<Rightarrow> (jsstring \<rightharpoonup> nat)" where
  "countByWord lc [] m = m"
| "countByWord lc (e # es) m =
     (let key = lc (word e)
      in countByWord lc es (m(key \<mapsto> (case m key of None \<Rightarrow> 0 | Some n \<Rightarrow> n) + 1)))"

fun dedupe ::
  "(jsstring \<Rightarrow> jsstring) \<Rightarrow> VocabularyEntry list \<Rightarrow> jsstring set \<Rightarrow> VocabularyEntry list" where
  "dedupe lc [] seen = []"
| "dedupe lc (e # es) seen =
     (let key = lc (word e)
      in if key \<in> seen then dedupe lc es seen else e # dedupe lc es (insert key seen))"

text \<open>
  \<open>slice(0, end)\<close>: the end is truncated to an integer, \<open>NaN\<close> counts as 0, and a
  negative end counts from the end of the list.
\<close>

definition slice0 :: "'a list \<Rightarrow> number \<Rightarrow> 'a list" where
  "slice0 xs end =
     (case end of
        NaN \<Rightarrow> []
      | PosInfinity \<Rightarrow> xs
      | NegInfinity \<Rightarrow> []
      | Finite q \<Rightarrow>
          (let k = (if q < 0 then \<lceil>q\<rceil> else \<lfloor>q\<rfloor>)
           in if k < 0 then take (nat (int (length xs) + k)) xs else take (nat k) xs))"

definition withOccurrences ::
  "(jsstring \<Rightarrow> jsstring) \<Rightarrow> (jsstring \<rightharpoonup> nat) \<Rightarrow> VocabularyEntry \<Rightarrow> VocabularyEntry" where
  "withOccurrences lc counts e =
     e\<lparr>occurrences := Some (case counts (lc (word e)) of
                               Some n \<Rightarrow> toNumber n
                             | None \<Rightarrow> Finite 1)\<rparr>"

definition parseVocabularyResponse ::
  "(jsstring \<Rightarrow> jsstring) \<Rightarrow> jsstring \<Rightarrow> number \<Rightarrow> number \<Rightarrow> error + VocabularyEntry list" where
  "parseVocabularyResponse lc text maxWords' minLength' =
     (let trimmed = trim text;
          jsonStr = jsonCandidate trimmed
      in case JSON_parse jsonStr of
           None \<Rightarrow> Inl InvalidJson
         | Some (JArray list) \<Rightarrow>
             (let norm = normalized list minLength';
                  counts = countByWord lc norm Map.empty
              in Inr (slice0 (map (withOccurrences lc counts) (dedupe lc norm {})) maxWords'))
         | Some _ \<Rightarrow> Inr [])"

text \<open>
  The case mapping on the Basic Latin letters, where \<open>toLowerCase\<close> is known without
  the Unicode tables.
\<close>

definition asciiLower :: "jsstring \<Rightarrow> jsstring" where
  "asciiLower s = map (\<lambda>c. if 0x41 \<le> c \<and> c \<le> 0x5A then c + 0x20 else c) s"

text \<open>
  The list called \<open>normalized\<close> in the source, as a function of the parser's input:
  the candidates after normalisation and the length filter, before deduplication.
\<close>

definition candidates :: "jsstring \<Rightarrow> number \<Rightarrow> VocabularyEntry list" where
  "candidates text minLength' =
     (case JSON_parse (jsonCandidate (trim text)) of
        Some (JArray list) \<Rightarrow> normalized list minLength'
      | _ \<Rightarrow> [])"

text \<open>
  The nesting depth the bracket scan has reached after index \<open>i\<close>, counted from the
  first bracket: opening brackets minus closing brackets in between.
\<close>

definition bracketDepth :: "jsstring \<Rightarrow> nat \<Rightarrow> nat \<Rightarrow> int" where
  "bracketDepth t firstBracket i =
     int (count_list (substring t firstBracket (i + 1)) 0x5B) -
     int (count_list (substring t firstBracket (i + 1)) 0x5D)"

text \<open>
  The response of the deduplication test (\<open>tests/vocabulary.test.ts\<close>), and an
  entry with a word, a score and a count only.
\<close>

definition withDupes :: jsstring where
  "withDupes = lit ''[{\"word\":\"shine\",\"score\":8},{\"word\":\"Shine\",\"score\":5},{\"word\":\"forever\",\"score\":7}]''"

definition entry :: "jsstring \<Rightarrow> number option \<Rightarrow> number option \<Rightarrow> VocabularyEntry" where
  "entry w sc oc = \<lparr>word = w, score = sc, meaning = None, example = None, synonyms = None,
     occurrences = oc, songTitle = None, songArtist = None\<rparr>"

text \<open>A response with two candidates.\<close>

definition twoWords :: jsstring where
  "twoWords = lit ''[{\"word\":\"ab\"},{\"word\":\"cd\"}]''"

text \<open>Opening minus closing brackets in a piece of text.\<close>

definition bracketDelta :: "jsstring \<Rightarrow> int" where
  "bracketDelta xs = int (count_list xs 0x5B) - int (count_list xs 0x5D)"

section \<open>The fallback extractor (vocabulary.ts)\<close>

definition stops :: "jsstring list" where
  "stops = map lit
     [''the'', ''a'', ''an'', ''is'', ''are'', ''was'', ''were'', ''be'', ''been'', ''being'',
      ''have'', ''has'', ''had'', ''do'', ''does'', ''did'', ''will'', ''would'', ''could'',
      ''should'', ''may'', ''might'', ''must'', ''shall'', ''can'', ''need'', ''and'', ''or'',
      ''but'', ''if'', ''then'', ''when'', ''where'', ''what'', ''which'', ''who'', ''whom'',
      ''whose'', ''why'', ''how'', ''this'', ''that'', ''these'', ''those'', ''it'', ''its'',
      ''in'', ''on'', ''at'', ''to'', ''for'', ''of'', ''with'', ''by'', ''from'', ''up'',
      ''down'', ''over'', ''under'', ''again'', ''further'', ''then'', ''once'', ''here'',
      ''there'', ''why'', ''how'', ''all'', ''any'', ''both'', ''each'', ''few'', ''more'',
      ''most'', ''other'', ''some'', ''such'', ''no'', ''nor'', ''not'', ''only'', ''own'',
      ''same'', ''so'', ''than'', ''too'', ''very'', ''just'', ''im'', ''i'', ''you'', ''we'',
      ''they'', ''my'', ''your'', ''our'', ''their'']"

definition isStopWord :: "(jsstring \<Rightarrow> jsstring) \<Rightarrow> jsstring \<Rightarrow> bool" where
  "isStopWord lc w \<longleftrightarrow> lc w \<in> set stops"

text \<open>The class \<open>\w\<close>: letters, digits and the underscore of Basic Latin.\<close>

definition isWordChar :: "nat \<Rightarrow> bool" where
  "isWordChar c \<longleftrightarrow>
     (0x30 \<le> c \<and> c \<le> 0x39) \<or> (0x41 \<le> c \<and> c \<le> 0x5A) \<or> c = 0x5F \<or>
     (0x61 \<le> c \<and> c \<le> 0x7A)"

text \<open>
  \<open>split(/\s+/)\<close>: a maximal run of white space is one separator; the text before the
  first run and after the last one is a piece even when empty.
\<close>

fun splitWs :: "jsstring \<Rightarrow> jsstring \<Rightarrow> bool \<Rightarrow> jsstring list" where
  "splitWs [] cur inRun = [rev cur]"
| "splitWs (c # cs) cur inRun =
     (if isWhiteSpace c then
        (if inRun then splitWs cs cur True else rev cur # splitWs cs [] True)
      else splitWs cs (c # cur) False)"

text \<open>\<open>[...new Set(words)]\<close>: the distinct words in order of first appearance.\<close>

fun uniqueInOrder :: "'a list \<Rightarrow> 'a list \<Rightarrow> 'a list" where
  "uniqueInOrder [] seen = []"
| "uniqueInOrder (x # xs) seen =
     (if x \<in> set seen then uniqueInOrder xs seen else x # uniqueInOrder xs (x # seen))"

definition fallbackMeaning :: jsstring where
  "fallbackMeaning = [0xB2E8, 0xC5B4, 0x20, 0xC815, 0xC758]"

definition fallbackExample :: jsstring where
  "fallbackExample =
     [0xAC00, 0xC0AC, 0xC5D0, 0xC11C, 0x20, 0xCD94, 0xCD9C, 0xB41C, 0x20, 0xB2E8, 0xC5B4]"

definition getFallbackVocabulary ::
  "(jsstring \<Rightarrow> jsstring) \<Rightarrow> jsstring \<Rightarrow> number \<Rightarrow> number \<Rightarrow> VocabularyEntry list" where
  "getFallbackVocabulary lc lyrics maxWords' minLength' =
     (let words =
            filter (\<lambda>w. \<not> isStopWord lc w)
              (filter (\<lambda>w. num_ge (toNumber (length w)) minLength')
                 (splitWs (map (\<lambda>c. if isWordChar c \<or> isWhiteSpace c then c else 0x20)
                             (lc lyrics)) [] False));
          uniqueWords = slice0 (uniqueInOrder words []) maxWords'
      in map (\<lambda>w. \<lparr>word = w, score = Some (Finite 5), meaning = Some fallbackMeaning,
                    example = Some fallbackExample, synonyms = Some [],
                    occurrences = Some (Finite 1), songTitle = None, songArtist = None\<rparr>)
           uniqueWords)"

section \<open>The orchestrator (vocabulary.ts)\<close>

record VocabularyEnv =
  GEMINI_API_KEY :: "jsstring option"
  GEMINI_MODEL :: "jsstring option"
  GEMINI_BASE_URL :: "jsstring option"

text \<open>
  The model client (\<open>lib/gemini\<close>) is an external collaborator. Each of its two calls
  is represented by its outcome for the prompt built from the lyrics and the options:
  the streaming call gives the chunks of text or fails, the structured call gives an
  object that conforms to the schema of the source (its \<open>items\<close>, \<open>None\<close> when
  nullish) or fails; a call that never settles is outside the model. The function
  returns the calls it made along with its result, so that the order of the key check
  and the calls can be stated.
\<close>

datatype attempt = StreamingCall | StructuredCall | FallbackRun

definition streamingAttempt ::
  "(jsstring \<Rightarrow> jsstring) \<Rightarrow> error + jsstring list \<Rightarrow> number \<Rightarrow> number \<Rightarrow>
     error + VocabularyEntry list" where
  "streamingAttempt lc stream maxWords' minLength' =
     (case stream of
        Inl e \<Rightarrow> Inl e
      | Inr chunks \<Rightarrow> parseVocabularyResponse lc (concat chunks) maxWords' minLength')"

definition structuredEntries ::
  "VocabularyEntry list option \<Rightarrow> number \<Rightarrow> number \<Rightarrow> VocabularyEntry list" where
  "structuredEntries items maxWords' minLength' =
     slice0
       (map (\<lambda>e. e\<lparr>word := trim (word e), occurrences := Some (Finite 1)\<rparr>)
          (filter (\<lambda>e. word e \<noteq> [] \<and> num_ge (toNumber (length (word e))) minLength')
             (case items of Some xs \<Rightarrow> xs | None \<Rightarrow> [])))
       maxWords'"

text \<open>The defaults of the destructuring \<open>{ maxWords = 30, minLength = 2 } = options\<close>.\<close>

definition effectiveMaxWords :: "VocabularyOptions \<Rightarrow> number" where
  "effectiveMaxWords options = (case maxWords options of Some n \<Rightarrow> n | None \<Rightarrow> Finite 30)"

definition effectiveMinLength :: "VocabularyOptions \<Rightarrow> number" where
  "effectiveMinLength options = (case minLength options of Some n \<Rightarrow> n | None \<Rightarrow> Finite 2)"

definition createVocabularyFromLyrics ::
  "(jsstring \<Rightarrow> jsstring) \<Rightarrow> jsstring \<Rightarrow> VocabularyOptions \<Rightarrow> VocabularyEnv \<Rightarrow>
     error + jsstring list \<Rightarrow> error + VocabularyEntry list option \<Rightarrow>
     attempt list \<times> (error + VocabularyEntry list)" where
  "createVocabularyFromLyrics lc lyrics options env stream structured =
     (if GEMINI_API_KEY env = None \<or> GEMINI_API_KEY env = Some [] then ([], Inl MissingApiKey)
      else
        (let maxWords' = effectiveMaxWords options;
             minLength' = effectiveMinLength options
         in case streamingAttempt lc stream maxWords' minLength' of
              Inr entries \<Rightarrow> ([StreamingCall], Inr entries)
            | Inl e \<Rightarrow>
                (case structured of
                   Inr items \<Rightarrow>
                     ([StreamingCall, StructuredCall],
                      Inr (structuredEntries items maxWords' minLength'))
                 | Inl e2 \<Rightarrow>
                     ([StreamingCall, StructuredCall, FallbackRun],
                      Inr (getFallbackVocabulary lc lyrics maxWords' minLength')))))"

text \<open>The environment and the options of the tests (\<open>tests/vocabulary.test.ts\<close>).\<close>

definition keyedEnv :: VocabularyEnv where
  "keyedEnv = \<lparr>GEMINI_API_KEY = Some (lit ''test-gemini-api-key''), GEMINI_MODEL = None,
     GEMINI_BASE_URL = None\<rparr>"

definition defaultOptions :: VocabularyOptions where
  "defaultOptions = \<lparr>language = En, maxWords = None, minLength = None, level = None\<rparr>"

section \<open>Lyrics extraction (extractLyricsFromHtml)\<close>

text \<open>
  The regular expressions of \<open>extractLyricsFromHtml\<close> are modelled by matchers: a
  matcher looks at the text from the current position and returns the length of the match
  there (at least one code unit for every expression of the function) with what it
  stands for. With the flag \<open>i\<close> the letters of Basic Latin match in either case.
\<close>

definition lowerUnit :: "nat \<Rightarrow> nat" where
  "lowerUnit c = (if 0x41 \<le> c \<and> c \<le> 0x5A then c + 0x20 else c)"

definition startsWithCI :: "jsstring \<Rightarrow> jsstring \<Rightarrow> bool" where
  "startsWithCI s p \<longleftrightarrow>
     length p \<le> length s \<and> map lowerUnit (take (length p) s) = map lowerUnit p"

fun indexOfStr :: "jsstring \<Rightarrow> jsstring \<Rightarrow> nat option" where
  "indexOfStr [] p = (if p = [] then Some 0 else None)"
| "indexOfStr (c # cs) p =
     (if startsWith (c # cs) p then Some 0 else map_option Suc (indexOfStr cs p))"

text \<open>
  \<open>replace\<close> with the flag \<open>g\<close>: every match, left to right, is replaced, and
  the search goes on after the match. \<open>skip\<close> counts the code units of the current
  match that are still to be passed. In \<open>replaceAllE\<close> the replacement is computed by a
  callback that may raise.
\<close>

fun replaceAll :: "(jsstring \<Rightarrow> (nat \<times> jsstring) option) \<Rightarrow> jsstring \<Rightarrow> nat \<Rightarrow> jsstring" where
  "replaceAll m [] skip = []"
| "replaceAll m (c # cs) skip =
     (if skip > 0 then replaceAll m cs (skip - 1)
      else
        (case m (c # cs) of
           None \<Rightarrow> c # replaceAll m cs 0
         | Some (n, r) \<Rightarrow> r @ replaceAll m cs (n - 1)))"

fun replaceAllE ::
  "(jsstring \<Rightarrow> (nat \<times> (error + jsstring)) option) \<Rightarrow> jsstring \<Rightarrow> nat \<Rightarrow> error + jsstring" where
  "replaceAllE m [] skip = Inr []"
| "replaceAllE m (c # cs) skip =
     (if skip > 0 then replaceAllE m cs (skip - 1)
      else
        (case m (c # cs) of
           None \<Rightarrow> map_sum id (Cons c) (replaceAllE m cs 0)
         | Some (n, Inl e) \<Rightarrow> Inl e
         | Some (n, Inr r) \<Rightarrow> map_sum id (append r) (replaceAllE m cs (n - 1))))"

text \<open>\<open>/<br\s*\/?>/gi\<close>\<close>

definition brTag :: "jsstring \<Rightarrow> (nat \<times> jsstring) option" where
  "brTag s =
     (if startsWithCI s (lit ''<br'') then
        (let r = dropWhile isWhiteSpace (drop 3 s);
             r' = (case r of [] \<Rightarrow> r | c # cs \<Rightarrow> if c = 0x2F then cs else r)
         in case r' of
              [] \<Rightarrow> None
            | c # cs \<Rightarrow> if c = 0x3E then Some (length s - length cs, [0xA]) else None)
      else None)"

text \<open>\<open>/<[^>]*>/g\<close>\<close>

definition anyTag :: "jsstring \<Rightarrow> (nat \<times> jsstring) option" where
  "anyTag s =
     (case s of
        [] \<Rightarrow> None
      | c # cs \<Rightarrow>
          (if c = 0x3C then
             (case dropWhile (\<lambda>x. x \<noteq> 0x3E) cs of
                [] \<Rightarrow> None
              | g # rest \<Rightarrow> Some (length s - length rest, []))
           else None))"

text \<open>
  \<open>String.fromCodePoint\<close> raises a \<open>RangeError\<close> above \<open>0x10FFFF\<close> and gives a
  surrogate pair above \<open>0xFFFF\<close>.
\<close>

definition fromCodePoint :: "nat \<Rightarrow> error + jsstring" where
  "fromCodePoint n =
     (if n > 0x10FFFF then Inl RangeError
      else if n < 0x10000 then Inr [n]
      else Inr [0xD800 + (n - 0x10000) div 0x400, 0xDC00 + (n - 0x10000) mod 0x400])"

definition hexDigitsValue :: "jsstring \<Rightarrow> nat" where
  "hexDigitsValue ds = foldl (\<lambda>acc d. 16 * acc + (case hexValue d of Some v \<Rightarrow> v | None \<Rightarrow> 0)) 0 ds"

text \<open>\<open>/&#x([0-9a-f]+);/gi\<close> with \<open>String.fromCodePoint(parseInt(code, 16))\<close>\<close>

definition hexRef :: "jsstring \<Rightarrow> (nat \<times> (error + jsstring)) option" where
  "hexRef s =
     (if startsWithCI s (lit ''&#x'') then
        (let ds = takeWhile (\<lambda>c. hexValue c \<noteq> None) (drop 3 s)
         in if ds \<noteq> [] \<and> startsWith (drop (3 + length ds) s) [0x3B]
            then Some (3 + length ds + 1, fromCodePoint (hexDigitsValue ds))
            else None)
      else None)"

text \<open>\<open>/&#(\d+);/gi\<close> with \<open>String.fromCodePoint(Number(code))\<close>\<close>

definition decRef :: "jsstring \<Rightarrow> (nat \<times> (error + jsstring)) option" where
  "decRef s =
     (if startsWith s (lit ''&#'') then
        (let ds = takeWhile isDigit (drop 2 s)
         in if ds \<noteq> [] \<and> startsWith (drop (2 + length ds) s) [0x3B]
            then Some (2 + length ds + 1, fromCodePoint (digitsValue ds))
            else None)
      else None)"

text \<open>A fixed text, matched without regard to case, and its replacement.\<close>

definition entity :: "jsstring \<Rightarrow> jsstring \<Rightarrow> jsstring \<Rightarrow> (nat \<times> jsstring) option" where
  "entity name r s = (if startsWithCI s name then Some (length name, r) else None)"

text \<open>\<open>/&(apos|#x27|#39);/gi\<close>\<close>

definition aposRef :: "jsstring \<Rightarrow> (nat \<times> jsstring) option" where
  "aposRef s =
     (case entity (lit ''&apos;'') [0x27] s of
        Some r \<Rightarrow> Some r
      | None \<Rightarrow>
          (case entity (lit ''&#x27;'') [0x27] s of
             Some r \<Rightarrow> Some r
           | None \<Rightarrow> entity (lit ''&#39;'') [0x27] s))"

text \<open>
  The container expression
  \<^verbatim>\<open><div[^>]*data-lyrics-container="true"[^>]*>([\s\S]*?)<\/div>\<close>:
  the opening tag ends at the first \<open>>\<close> and must contain the attribute; the group is
  the text up to the first \<open></div>\<close>. The result is the length of the match and the
  group.
\<close>

definition containerAt :: "jsstring \<Rightarrow> (nat \<times> jsstring) option" where
  "containerAt s =
     (if startsWith s (lit ''<div'') then
        (let attrs = takeWhile (\<lambda>x. x \<noteq> 0x3E) (drop 4 s);
             after = drop (4 + length attrs) s
         in case after of
              [] \<Rightarrow> None
            | g # body \<Rightarrow>
                (if indexOfStr attrs (lit ''data-lyrics-container=\"true\"'') = None then None
                 else
                   (case indexOfStr body (lit ''</div>'') of
                      None \<Rightarrow> None
                    | Some k \<Rightarrow> Some (4 + length attrs + 1 + k + 6, take k body))))
      else None)"

fun lyricsContainers :: "jsstring \<Rightarrow> nat \<Rightarrow> jsstring list" where
  "lyricsContainers [] skip = []"
| "lyricsContainers (c # cs) skip =
     (if skip > 0 then lyricsContainers cs (skip - 1)
      else
        (case containerAt (c # cs) of
           None \<Rightarrow> lyricsContainers cs 0
         | Some (n, content) \<Rightarrow> content # lyricsContainers cs (n - 1)))"

definition decodeEntities :: "jsstring \<Rightarrow> error + jsstring" where
  "decodeEntities content =
     (case replaceAllE hexRef content 0 of
        Inl e \<Rightarrow> Inl e
      | Inr c1 \<Rightarrow>
          (case replaceAllE decRef c1 0 of
             Inl e \<Rightarrow> Inl e
           | Inr c2 \<Rightarrow>
               Inr (replaceAll aposRef
                     (replaceAll (entity (lit ''&quot;'') [0x22])
                       (replaceAll (entity (lit ''&gt;'') [0x3E])
                         (replaceAll (entity (lit ''&lt;'') [0x3C])
                           (replaceAll (entity (lit ''&amp;'') [0x26]) c2 0) 0) 0) 0) 0)))"

fun lyricsParts :: "jsstring list \<Rightarrow> error + jsstring list" where
  "lyricsParts [] = Inr []"
| "lyricsParts (m # ms) =
     (case decodeEntities (replaceAll anyTag (replaceAll brTag m 0) 0) of
        Inl e \<Rightarrow> Inl e
      | Inr decoded \<Rightarrow>
          (let content = trim decoded
           in case lyricsParts ms of
                Inl e \<Rightarrow> Inl e
              | Inr parts \<Rightarrow> Inr (if content \<noteq> [] then content # parts else parts)))"

fun joinParts :: "jsstring list \<Rightarrow> jsstring" where
  "joinParts [] = []"
| "joinParts [p] = p"
| "joinParts (p # ps) = p @ [0xA, 0xA] @ joinParts ps"

definition extractLyricsFromHtml :: "jsstring \<Rightarrow> error + jsstring" where
  "extractLyricsFromHtml html =
     (case lyricsParts (lyricsContainers html 0) of
        Inl e \<Rightarrow> Inl e
      | Inr parts \<Rightarrow> if length parts = 0 then Inl NoLyricsFound else Inr (joinParts parts))"

section \<open>Persistence upsert (db/settings.ts and db/d1.ts)\<close>

text \<open>
  The table \<open>user_words\<close> is a list of rows with the columns the upsert reads or
  writes (\<open>created_at\<close> and the song columns of the D1 statements are left out), and
  \<open>word_synonyms\<close> is a list of pairs of a word id and a synonym. The count column is
  an integer, and so is \<open>occurrences\<close> (\<open>None\<close> when it is absent or not a
  number). New ids come from a supply \<open>uuid\<close>, of which the database state holds the
  number already used. The statements are modelled from their SQL text.
\<close>

record UserWordRow =
  uw_id :: jsstring
  uw_user_id :: jsstring
  uw_word :: jsstring
  uw_meaning :: "jsstring option"
  uw_count :: int



text \<open>\<open>WHERE user_id = ? AND word = ?\<close>\<close>

definition matches :: "jsstring \<Rightarrow> jsstring \<Rightarrow> UserWordRow \<Rightarrow> bool" where
  "matches userId w r \<longleftrightarrow> uw_user_id r = userId \<and> uw_word r = w"













definition uniqueWords :: "UserWordRow list \<Rightarrow> bool" where
  "uniqueWords rows \<longleftrightarrow>
     (\<forall>userId w. length (filter (matches userId w) rows) \<le> 1)"




section \<open>Properties\<close>

subsection \<open>Settings resolver\<close>

text \<open>
  C7. The settings resolver always returns options for a resolving lookup. With no row it
  returns exactly language en, level intermediate, maxWords 30, minLength 2. With a row,
  language "ko" is kept and every other language becomes en; level "beginner" and
  "advanced" are kept and every other level becomes intermediate; a \<open>max_words\<close> that is
  finite and within 1..200 is kept and every other value becomes 30; a \<open>min_length\<close>
  that is finite and within 1..20 is kept and every other value becomes 2.
\<close>

theorem getVocabularyOptionsForUser_total:
  "(getSettings userId = None \<longrightarrow>
      getVocabularyOptionsForUser userId getSettings =
        \<lparr>language = En, maxWords = Some (Finite 30), minLength = Some (Finite 2),
         level = Some Intermediate\<rparr>) \<and>
   (\<forall>row. getSettings userId = Some row \<longrightarrow>
      (let r = getVocabularyOptionsForUser userId getSettings in
        (row_language row = lit ''ko'' \<longrightarrow> language r = Ko) \<and>
        (row_language row \<noteq> lit ''ko'' \<longrightarrow> language r = En) \<and>
        (row_level row = lit ''beginner'' \<longrightarrow> level r = Some Beginner) \<and>
        (row_level row = lit ''advanced'' \<longrightarrow> level r = Some Advanced) \<and>
        (row_level row \<noteq> lit ''beginner'' \<and> row_level row \<noteq> lit ''advanced'' \<longrightarrow>
           level r = Some Intermediate) \<and>
        (\<forall>q. max_words row = Finite q \<and> 1 \<le> q \<and> q \<le> 200 \<longrightarrow>
           maxWords r = Some (Finite q)) \<and>
        ((\<forall>q. max_words row = Finite q \<longrightarrow> q < 1 \<or> 200 < q) \<longrightarrow>
           maxWords r = Some (Finite 30)) \<and>
        (\<forall>q. min_length row = Finite q \<and> 1 \<le> q \<and> q \<le> 20 \<longrightarrow>
           minLength r = Some (Finite q)) \<and>
        ((\<forall>q. min_length row = Finite q \<longrightarrow> q < 1 \<or> 20 < q) \<longrightarrow>
           minLength r = Some (Finite 2))))"
proof (intro conjI allI impI)
  assume "getSettings userId = None"
  then show "getVocabularyOptionsForUser userId getSettings =
        \<lparr>language = En, maxWords = Some (Finite 30), minLength = Some (Finite 2),
         level = Some Intermediate\<rparr>"
    by (simp add: getVocabularyOptionsForUser_def DEFAULT_VOCABULARY_OPTIONS_def)
next
  fix row
  assume row: "getSettings userId = Some row"
  have r: "getVocabularyOptionsForUser userId getSettings = rowToOptions row"
    using row by (simp add: getVocabularyOptionsForUser_def)
  have adv: "lit ''advanced'' \<noteq> lit ''beginner''"
    by (simp add: lit_def)
  have mw: "maxWords (rowToOptions row) =
      (case max_words row of
         Finite q \<Rightarrow> if 1 \<le> q \<and> q \<le> 200 then Some (Finite q) else Some (Finite 30)
       | _ \<Rightarrow> Some (Finite 30))"
    by (cases "max_words row")
      (simp_all add: rowToOptions_def Let_def num_ge_def DEFAULT_VOCABULARY_OPTIONS_def)
  have ml: "minLength (rowToOptions row) =
      (case min_length row of
         Finite q \<Rightarrow> if 1 \<le> q \<and> q \<le> 20 then Some (Finite q) else Some (Finite 2)
       | _ \<Rightarrow> Some (Finite 2))"
    by (cases "min_length row")
      (simp_all add: rowToOptions_def Let_def num_ge_def DEFAULT_VOCABULARY_OPTIONS_def)
  have lang: "language (rowToOptions row) = (if row_language row = lit ''ko'' then Ko else En)"
    by (simp add: rowToOptions_def Let_def)
  have lv: "level (rowToOptions row) =
      Some (if row_level row = lit ''beginner'' then Beginner
            else if row_level row = lit ''advanced'' then Advanced else Intermediate)"
    by (simp add: rowToOptions_def Let_def)
  have mw_out: "(\<forall>q. max_words row = Finite q \<longrightarrow> q < 1 \<or> 200 < q) \<Longrightarrow>
      maxWords (rowToOptions row) = Some (Finite 30)"
    unfolding mw by (cases "max_words row") auto
  have ml_out: "(\<forall>q. min_length row = Finite q \<longrightarrow> q < 1 \<or> 20 < q) \<Longrightarrow>
      minLength (rowToOptions row) = Some (Finite 2)"
    unfolding ml by (cases "min_length row") auto
  show "let r = getVocabularyOptionsForUser userId getSettings in
        (row_language row = lit ''ko'' \<longrightarrow> language r = Ko) \<and>
        (row_language row \<noteq> lit ''ko'' \<longrightarrow> language r = En) \<and>
        (row_level row = lit ''beginner'' \<longrightarrow> level r = Some Beginner) \<and>
        (row_level row = lit ''advanced'' \<longrightarrow> level r = Some Advanced) \<and>
        (row_level row \<noteq> lit ''beginner'' \<and> row_level row \<noteq> lit ''advanced'' \<longrightarrow>
           level r = Some Intermediate) \<and>
        (\<forall>q. max_words row = Finite q \<and> 1 \<le> q \<and> q \<le> 200 \<longrightarrow>
           maxWords r = Some (Finite q)) \<and>
        ((\<forall>q. max_words row = Finite q \<longrightarrow> q < 1 \<or> 200 < q) \<longrightarrow>
           maxWords r = Some (Finite 30)) \<and>
        (\<forall>q. min_length row = Finite q \<and> 1 \<le> q \<and> q \<le> 20 \<longrightarrow>
           minLength r = Some (Finite q)) \<and>
        ((\<forall>q. min_length row = Finite q \<longrightarrow> q < 1 \<or> 20 < q) \<longrightarrow>
           minLength r = Some (Finite 2))"
    unfolding Let_def r
    using adv mw_out ml_out by (simp add: lang lv mw ml)
qed

theorem getVocabularyOptionsForUser_total_witness:
  "getVocabularyOptionsForUser (lit ''u1'') (\<lambda>_. None) =
     \<lparr>language = En, maxWords = Some (Finite 30), minLength = Some (Finite 2),
      level = Some Intermediate\<rparr> \<and>
   getVocabularyOptionsForUser (lit ''u1'')
     (\<lambda>_. Some \<lparr>row_language = lit ''ko'', row_level = lit ''advanced'',
                 max_words = Finite 50, min_length = NaN\<rparr>) =
     \<lparr>language = Ko, maxWords = Some (Finite 50), minLength = Some (Finite 2),
      level = Some Advanced\<rparr>"
proof -
  let ?row = "\<lparr>row_language = lit ''ko'', row_level = lit ''advanced'',
                 max_words = Finite 50, min_length = NaN\<rparr>"
  have adv: "lit ''advanced'' \<noteq> lit ''beginner''"
    by (simp add: lit_def)
  have none: "getVocabularyOptionsForUser (lit ''u1'') (\<lambda>_. None) =
     \<lparr>language = En, maxWords = Some (Finite 30), minLength = Some (Finite 2),
      level = Some Intermediate\<rparr>"
    using getVocabularyOptionsForUser_total [of "\<lambda>_. None" "lit ''u1''"] by simp
  have some: "let r = getVocabularyOptionsForUser (lit ''u1'') (\<lambda>_. Some ?row) in
      language r = Ko \<and> level r = Some Advanced \<and> maxWords r = Some (Finite 50) \<and>
      minLength r = Some (Finite 2)"
    using getVocabularyOptionsForUser_total [of "\<lambda>_. Some ?row" "lit ''u1''"] adv
    by (simp add: Let_def)
  show ?thesis
    using none some by (simp add: Let_def VocabularyOptions.equality)
qed

subsection \<open>Response parser\<close>

lemma countByWord_count:
  "countByWord lc es m k =
     (if \<exists>c \<in> set es. lc (word c) = k
      then Some ((case m k of None \<Rightarrow> 0 | Some n \<Rightarrow> n) +
                 length (filter (\<lambda>c. lc (word c) = k) es))
      else m k)"
proof (induction es arbitrary: m)
  case Nil
  show ?case by simp
next
  case (Cons e es)
  show ?case
    by (cases "lc (word e) = k") (auto simp: Cons.IH Let_def split: option.splits)
qed

lemma dedupe_first:
  "e \<in> set (dedupe lc es seen) \<Longrightarrow>
     lc (word e) \<notin> seen \<and> find (\<lambda>c. lc (word c) = lc (word e)) es = Some e"
proof (induction es arbitrary: seen)
  case Nil
  then show ?case by simp
next
  case (Cons a es)
  show ?case
  proof (cases "lc (word a) \<in> seen")
    case True
    with Cons.prems have "e \<in> set (dedupe lc es seen)" by simp
    from Cons.IH [OF this] True show ?thesis by auto
  next
    case False
    show ?thesis
    proof (cases "e = a")
      case True
      with False show ?thesis by simp
    next
      case ne: False
      with Cons.prems False have "e \<in> set (dedupe lc es (insert (lc (word a)) seen))"
        by simp
      from Cons.IH [OF this] show ?thesis by auto
    qed
  qed
qed

lemma dedupe_distinct: "distinct (map (\<lambda>e. lc (word e)) (dedupe lc es seen))"
proof (induction es arbitrary: seen)
  case Nil
  show ?case by simp
next
  case (Cons a es)
  have "lc (word a) \<notin> (\<lambda>e. lc (word e)) ` set (dedupe lc es (insert (lc (word a)) seen))"
  proof
    assume "lc (word a) \<in> (\<lambda>e. lc (word e)) ` set (dedupe lc es (insert (lc (word a)) seen))"
    then obtain e where e: "e \<in> set (dedupe lc es (insert (lc (word a)) seen))"
      and k: "lc (word e) = lc (word a)"
      by auto
    from dedupe_first [OF e] have "lc (word e) \<notin> insert (lc (word a)) seen" by simp
    with k show False by simp
  qed
  then show ?case using Cons.IH by (simp add: Let_def)
qed

lemma slice0_take: "\<exists>k. slice0 xs n = take k xs"
proof (cases n)
  case (Finite q)
  then show ?thesis by (auto simp: slice0_def Let_def)
next
  case NaN
  then have "slice0 xs n = take 0 xs" by (simp add: slice0_def)
  then show ?thesis by blast
next
  case PosInfinity
  then have "slice0 xs n = take (length xs) xs" by (simp add: slice0_def)
  then show ?thesis by blast
next
  case NegInfinity
  then have "slice0 xs n = take 0 xs" by (simp add: slice0_def)
  then show ?thesis by blast
qed

lemma word_withOccurrences [simp]: "word (withOccurrences lc counts e) = word e"
  by (simp add: withOccurrences_def)

lemma parse_Inr:
  "parseVocabularyResponse lc text maxWords' minLength' = Inr out \<Longrightarrow>
     out = slice0 (map (withOccurrences lc (countByWord lc (candidates text minLength') Map.empty))
                    (dedupe lc (candidates text minLength') {})) maxWords'"
  by (auto simp: parseVocabularyResponse_def candidates_def Let_def slice0_def
      split: option.splits json.splits number.splits)

text \<open>
  C1. When the parser returns a list, its entries are pairwise distinct under case-folded
  comparison of \<open>word\<close>; the \<open>occurrences\<close> of each entry is the number of
  candidates (normalised and length-filtered, before deduplication) with the same
  case-folded word; and each entry is the first such candidate, with \<open>occurrences\<close>
  added.
\<close>

theorem parse_unique_counted:
  assumes "parseVocabularyResponse lc text maxWords' minLength' = Inr out"
  shows "distinct (map (\<lambda>e. lc (word e)) out) \<and>
    (\<forall>e \<in> set out.
       occurrences e =
         Some (toNumber (length (filter (\<lambda>c. lc (word c) = lc (word e))
                                      (candidates text minLength')))) \<and>
       (\<exists>c. find (\<lambda>c. lc (word c) = lc (word e)) (candidates text minLength') = Some c \<and>
            e = c\<lparr>occurrences := occurrences e\<rparr>))"
proof -
  let ?cs = "candidates text minLength'"
  let ?counts = "countByWord lc ?cs Map.empty"
  let ?full = "map (withOccurrences lc ?counts) (dedupe lc ?cs {})"
  obtain k where out: "out = take k ?full"
    using parse_Inr [OF assms] slice0_take [of ?full maxWords'] by auto
  have keys: "map (\<lambda>e. lc (word e)) ?full = map (\<lambda>e. lc (word e)) (dedupe lc ?cs {})"
    by (simp add: comp_def)
  have "distinct (map (\<lambda>e. lc (word e)) ?full)"
    unfolding keys by (rule dedupe_distinct)
  then have d: "distinct (map (\<lambda>e. lc (word e)) out)"
    unfolding out take_map [symmetric] by (rule distinct_take)
  have each: "occurrences e =
         Some (toNumber (length (filter (\<lambda>c. lc (word c) = lc (word e)) ?cs))) \<and>
       (\<exists>c. find (\<lambda>c. lc (word c) = lc (word e)) ?cs = Some c \<and>
            e = c\<lparr>occurrences := occurrences e\<rparr>)" if "e \<in> set out" for e
  proof -
    from that out have "e \<in> set ?full" by (auto dest: in_set_takeD)
    then obtain c where c: "c \<in> set (dedupe lc ?cs {})" and e: "e = withOccurrences lc ?counts c"
      by auto
    from dedupe_first [OF c] have f: "find (\<lambda>x. lc (word x) = lc (word c)) ?cs = Some c"
      by simp
    then have mem: "c \<in> set ?cs"
      by (auto simp: find_Some_iff)
    then have cnt: "?counts (lc (word c)) =
        Some (length (filter (\<lambda>x. lc (word x) = lc (word c)) ?cs))"
      by (auto simp: countByWord_count)
    have "occurrences e = Some (toNumber (length (filter (\<lambda>x. lc (word x) = lc (word c)) ?cs)))"
      by (simp add: e withOccurrences_def cnt)
    moreover have "e = c\<lparr>occurrences := occurrences e\<rparr>"
      by (simp add: e withOccurrences_def)
    ultimately show ?thesis using f by (auto simp: e)
  qed
  from d each show ?thesis by blast
qed

lemma withDupes_ascii:
  "parseVocabularyResponse asciiLower withDupes (Finite 10) (Finite 2) =
     Inr [entry (lit ''shine'') (Some (Finite 8)) (Some (Finite 2)),
          entry (lit ''forever'') (Some (Finite 7)) (Some (Finite 1))]"
  unfolding withDupes_def by code_simp

theorem parse_unique_counted_witness:
  "parseVocabularyResponse asciiLower withDupes (Finite 10) (Finite 2) =
     Inr [entry (lit ''shine'') (Some (Finite 8)) (Some (Finite 2)),
          entry (lit ''forever'') (Some (Finite 7)) (Some (Finite 1))] \<and>
   distinct [asciiLower (lit ''shine''), asciiLower (lit ''forever'')] \<and>
   Some (Finite 2) =
     Some (toNumber (length (filter (\<lambda>c. asciiLower (word c) = asciiLower (lit ''shine''))
                                (candidates withDupes (Finite 2))))) \<and>
   Some (Finite 1) =
     Some (toNumber (length (filter (\<lambda>c. asciiLower (word c) = asciiLower (lit ''forever''))
                                (candidates withDupes (Finite 2)))))"
  using parse_unique_counted [OF withDupes_ascii] withDupes_ascii
  by (simp add: entry_def)

lemma slice0_length:
  assumes "num_le (Finite 0) n"
  shows "num_le (toNumber (length (slice0 xs n))) n"
proof (cases n)
  case (Finite q)
  with assms have q: "0 \<le> q" by simp
  then have fl: "0 \<le> \<lfloor>q\<rfloor>" by simp
  have "slice0 xs n = take (nat \<lfloor>q\<rfloor>) xs"
    using Finite q fl by (simp add: slice0_def Let_def)
  then have "length (slice0 xs n) \<le> nat \<lfloor>q\<rfloor>" by simp
  then have "(of_nat (length (slice0 xs n)) :: rat) \<le> of_nat (nat \<lfloor>q\<rfloor>)"
    by (simp only: of_nat_le_iff)
  also have "\<dots> = of_int \<lfloor>q\<rfloor>" using fl by simp
  also have "\<dots> \<le> q" by (rule of_int_floor_le)
  finally show ?thesis using Finite by (simp add: toNumber_def)
next
  case NaN
  with assms show ?thesis by simp
next
  case PosInfinity
  then show ?thesis by (simp add: toNumber_def)
next
  case NegInfinity
  with assms show ?thesis by simp
qed

lemma dedupe_subset: "set (dedupe lc es seen) \<subseteq> set es"
  by (induction es arbitrary: seen) (auto simp: Let_def)

lemma candidates_long: "c \<in> set (candidates text minLength') \<Longrightarrow>
    num_ge (toNumber (length (word c))) minLength'"
  by (auto simp: candidates_def normalized_def split: option.splits json.splits)

text \<open>
  C8 (amended). When the parser returns a list and \<open>maxWords\<close> is a number that is
  at least 0, the list has at most \<open>maxWords\<close> entries; for every \<open>maxWords\<close>
  and \<open>minLength\<close>, the word of every entry has length at least \<open>minLength\<close>.
\<close>

theorem parse_bounds:
  assumes "parseVocabularyResponse lc text maxWords' minLength' = Inr out"
  shows "(num_le (Finite 0) maxWords' \<longrightarrow> num_le (toNumber (length out)) maxWords') \<and>
    (\<forall>e \<in> set out. num_ge (toNumber (length (word e))) minLength')"
proof -
  let ?cs = "candidates text minLength'"
  let ?full = "map (withOccurrences lc (countByWord lc ?cs Map.empty)) (dedupe lc ?cs {})"
  have out: "out = slice0 ?full maxWords'"
    using assms by (rule parse_Inr)
  have len: "num_le (Finite 0) maxWords' \<longrightarrow> num_le (toNumber (length out)) maxWords'"
    unfolding out by (simp add: slice0_length)
  have "num_ge (toNumber (length (word e))) minLength'" if "e \<in> set out" for e
  proof -
    obtain k where "out = take k ?full"
      using out slice0_take [of ?full maxWords'] by auto
    with that have "e \<in> set ?full" by (auto dest: in_set_takeD)
    then obtain c where "c \<in> set (dedupe lc ?cs {})" and "word e = word c"
      by auto
    then show ?thesis
      using dedupe_subset [of lc "?cs" "{}"] candidates_long [of c "text" minLength'] by auto
  qed
  with len show ?thesis by blast
qed

text \<open>
  With \<open>maxWords = -1\<close> the slice drops the last entry only: of two candidates one
  is returned, which is more than \<open>maxWords\<close>.
\<close>

theorem parse_bounds_counterexample:
  "parseVocabularyResponse asciiLower twoWords (Finite (- 1)) (Finite 2) =
     Inr [\<lparr>word = lit ''ab'', score = None, meaning = None, example = None, synonyms = None,
           occurrences = Some (Finite 1), songTitle = None, songArtist = None\<rparr>] \<and>
   \<not> num_le (toNumber (length
        [\<lparr>word = lit ''ab'', score = None, meaning = None, example = None, synonyms = None,
           occurrences = Some (Finite 1), songTitle = None, songArtist = None\<rparr>])) (Finite (- 1))"
  unfolding twoWords_def by code_simp

theorem parse_bounds_witness:
  "parseVocabularyResponse asciiLower withDupes (Finite 10) (Finite 2) =
     Inr [entry (lit ''shine'') (Some (Finite 8)) (Some (Finite 2)),
          entry (lit ''forever'') (Some (Finite 7)) (Some (Finite 1))] \<and>
   num_le (Finite 0) (Finite 10) \<and>
   num_le (toNumber (length [entry (lit ''shine'') (Some (Finite 8)) (Some (Finite 2)),
          entry (lit ''forever'') (Some (Finite 7)) (Some (Finite 1))])) (Finite 10) \<and>
   num_ge (toNumber (length (lit ''shine''))) (Finite 2) \<and>
   num_ge (toNumber (length (lit ''forever''))) (Finite 2)"
  using parse_bounds [OF withDupes_ascii] withDupes_ascii
  by (simp add: entry_def)

lemma withDupes_candidates:
  "candidates withDupes (Finite 2) =
     [entry (lit ''shine'') (Some (Finite 8)) None,
      entry (lit ''Shine'') (Some (Finite 5)) None,
      entry (lit ''forever'') (Some (Finite 7)) None]"
  unfolding withDupes_def by code_simp

lemma withDupes_parse:
  "parseVocabularyResponse lc withDupes maxWords' (Finite 2) =
     Inr (slice0 (map (withOccurrences lc (countByWord lc (candidates withDupes (Finite 2)) Map.empty))
                    (dedupe lc (candidates withDupes (Finite 2)) {})) maxWords')"
proof -
  have "JSON_parse (jsonCandidate (trim withDupes)) \<noteq> None \<and>
    (case JSON_parse (jsonCandidate (trim withDupes)) of Some (JArray x) \<Rightarrow> True | _ \<Rightarrow> False)"
    unfolding withDupes_def by code_simp
  then show ?thesis
    by (auto simp: parseVocabularyResponse_def candidates_def Let_def
        split: option.splits json.splits)
qed

text \<open>
  C2. For the response \<open>withDupes\<close> with \<open>maxWords = 10\<close> and
  \<open>minLength = 2\<close> the parser returns exactly two entries, in this order: "shine"
  with score 8 and occurrences 2, then "forever" with score 7 and occurrences 1. The
  hypotheses say what \<open>toLowerCase\<close> does to the three words.
\<close>

theorem parse_scenario:
  assumes "lc (lit ''shine'') = lit ''shine''" and "lc (lit ''Shine'') = lit ''shine''"
    and "lc (lit ''forever'') = lit ''forever''"
  shows "parseVocabularyResponse lc withDupes (Finite 10) (Finite 2) =
     Inr [entry (lit ''shine'') (Some (Finite 8)) (Some (Finite 2)),
          entry (lit ''forever'') (Some (Finite 7)) (Some (Finite 1))]"
proof -
  have ne: "lit ''forever'' \<noteq> lit ''shine''"
    by (simp add: lit_def)
  have d: "dedupe lc (candidates withDupes (Finite 2)) {} =
     [entry (lit ''shine'') (Some (Finite 8)) None,
      entry (lit ''forever'') (Some (Finite 7)) None]"
    using assms ne by (simp add: withDupes_candidates entry_def Let_def)
  have c1: "countByWord lc (candidates withDupes (Finite 2)) Map.empty (lit ''shine'') = Some 2"
    using assms ne by (simp add: withDupes_candidates entry_def Let_def)
  have c2: "countByWord lc (candidates withDupes (Finite 2)) Map.empty (lit ''forever'') = Some 1"
    using assms ne by (simp add: withDupes_candidates entry_def Let_def)
  have s: "slice0 [a, b] (Finite 10) = [a, b]" for a b :: VocabularyEntry
    by (simp add: slice0_def)
  show ?thesis
    unfolding withDupes_parse d
    using assms by (simp add: s withOccurrences_def c1 c2 entry_def toNumber_def)
qed

theorem parse_scenario_witness:
  "asciiLower (lit ''shine'') = lit ''shine'' \<and> asciiLower (lit ''Shine'') = lit ''shine'' \<and>
   asciiLower (lit ''forever'') = lit ''forever'' \<and>
   parseVocabularyResponse asciiLower withDupes (Finite 10) (Finite 2) =
     Inr [entry (lit ''shine'') (Some (Finite 8)) (Some (Finite 2)),
          entry (lit ''forever'') (Some (Finite 7)) (Some (Finite 1))]"
proof -
  have a: "asciiLower (lit ''shine'') = lit ''shine''" by code_simp
  have b: "asciiLower (lit ''Shine'') = lit ''shine''" by code_simp
  have c: "asciiLower (lit ''forever'') = lit ''forever''" by code_simp
  from parse_scenario [OF a b c] a b c show ?thesis by simp
qed

lemma matchingEnd_None:
  "(\<forall>j < length cs. d + bracketDelta (take (Suc j) cs) \<noteq> 0) \<Longrightarrow> matchingEnd cs d i = None"
proof (induction cs arbitrary: d i)
  case Nil
  show ?case by simp
next
  case (Cons c cs)
  let ?d = "if c = 0x5B then d + 1 else if c = 0x5D then d - 1 else d"
  have step: "d + bracketDelta (take (Suc (Suc j)) (c # cs)) = ?d + bracketDelta (take (Suc j) cs)"
    for j
    by (simp add: bracketDelta_def)
  from Cons.prems [rule_format, of 0] have nz: "?d \<noteq> 0"
    by (simp add: bracketDelta_def split: if_splits)
  have "\<forall>j < length cs. ?d + bracketDelta (take (Suc j) cs) \<noteq> 0"
  proof (intro allI impI)
    fix j assume "j < length cs"
    then have "Suc j < length (c # cs)" by simp
    from Cons.prems [rule_format, OF this] show "?d + bracketDelta (take (Suc j) cs) \<noteq> 0"
      unfolding step .
  qed
  from Cons.IH [OF this] have "matchingEnd cs ?d (Suc i) = None" .
  with nz show ?case by (simp add: Let_def)
qed

text \<open>
  C10. If the trimmed text contains a \<open>[\<close> and the nesting depth, counted from the
  first \<open>[\<close>, is not zero after any later index, then the text handed to
  \<open>JSON.parse\<close> is the whole trimmed text. So the input \<open>x [1,2\<close> raises the
  invalid-JSON error.
\<close>

theorem unmatched_bracket_whole_text:
  "(indexOf (trim text) 0x5B = Some firstBracket \<and>
    (\<forall>i. firstBracket \<le> i \<and> i < length (trim text) \<longrightarrow>
         bracketDepth (trim text) firstBracket i \<noteq> 0) \<longrightarrow>
    jsonCandidate (trim text) = trim text) \<and>
   parseVocabularyResponse lc (lit ''x [1,2'') maxWords' minLength' = Inl InvalidJson"
proof (intro conjI impI)
  assume h: "indexOf (trim text) 0x5B = Some firstBracket \<and>
    (\<forall>i. firstBracket \<le> i \<and> i < length (trim text) \<longrightarrow>
         bracketDepth (trim text) firstBracket i \<noteq> 0)"
  let ?t = "trim text"
  have "\<forall>j < length (drop firstBracket ?t).
      0 + bracketDelta (take (Suc j) (drop firstBracket ?t)) \<noteq> 0"
  proof (intro allI impI)
    fix j assume j: "j < length (drop firstBracket ?t)"
    then have "firstBracket \<le> firstBracket + j \<and> firstBracket + j < length ?t" by simp
    with h have "bracketDepth ?t firstBracket (firstBracket + j) \<noteq> 0" by blast
    then show "0 + bracketDelta (take (Suc j) (drop firstBracket ?t)) \<noteq> 0"
      by (simp add: bracketDepth_def bracketDelta_def substring_def)
  qed
  then have "matchingEnd (drop firstBracket ?t) 0 firstBracket = None"
    by (rule matchingEnd_None)
  with h show "jsonCandidate ?t = ?t"
    by (simp add: jsonCandidate_def)
next
  have "JSON_parse (jsonCandidate (trim (lit ''x [1,2''))) = None"
    by code_simp
  then show "parseVocabularyResponse lc (lit ''x [1,2'') maxWords' minLength' = Inl InvalidJson"
    by (simp add: parseVocabularyResponse_def Let_def)
qed

theorem unmatched_bracket_whole_text_witness:
  "indexOf (trim (lit ''x [1,2'')) 0x5B = Some 2 \<and>
   bracketDepth (trim (lit ''x [1,2'')) 2 2 = 1 \<and>
   bracketDepth (trim (lit ''x [1,2'')) 2 5 = 1 \<and>
   jsonCandidate (trim (lit ''x [1,2'')) = trim (lit ''x [1,2'')"
proof -
  let ?t = "trim (lit ''x [1,2'')"
  have t: "?t = [0x78, 0x20, 0x5B, 0x31, 0x2C, 0x32]" by code_simp
  have i: "indexOf ?t 0x5B = Some 2" unfolding t by simp
  have d: "bracketDepth ?t 2 i = 1" if "2 \<le> i" for i
  proof -
    from that obtain k where k: "i = 2 + k" using le_Suc_ex by blast
    have "count_list (take (Suc k) [0x5B, 0x31, 0x2C, 0x32 :: nat]) 0x5B = 1 \<and>
          count_list (take (Suc k) [0x5B, 0x31, 0x2C, 0x32 :: nat]) 0x5D = 0"
      by (cases k) (auto simp: take_Cons split: nat.splits)
    then show ?thesis
      unfolding t k by (simp add: bracketDepth_def substring_def)
  qed
  then have all: "\<forall>i. 2 \<le> i \<and> i < length ?t \<longrightarrow> bracketDepth ?t 2 i \<noteq> 0"
    by simp
  from unmatched_bracket_whole_text [of "lit ''x [1,2''" 2] i all
  have "jsonCandidate ?t = ?t" by blast
  with i d [of 2] d [of 5] show ?thesis by simp
qed

subsection \<open>Fallback extractor and orchestrator\<close>

text \<open>
  C9. The fallback extractor has no step that can raise, so it is a total function that
  returns its list for every string. Every entry it returns has occurrences 1, score 5,
  no synonyms, and the fixed placeholder meaning and example.
\<close>

theorem getFallbackVocabulary_entries:
  "\<forall>e \<in> set (getFallbackVocabulary lc lyrics maxWords' minLength').
     occurrences e = Some (Finite 1) \<and> score e = Some (Finite 5) \<and> synonyms e = Some [] \<and>
     meaning e = Some fallbackMeaning \<and> example e = Some fallbackExample"
  by (auto simp: getFallbackVocabulary_def Let_def)

lemma fallback_example:
  "getFallbackVocabulary asciiLower (lit ''We shine bright like a diamond. Forever and ever.'')
     (Finite 3) (Finite 2) =
   map (\<lambda>w. \<lparr>word = w, score = Some (Finite 5), meaning = Some fallbackMeaning,
                example = Some fallbackExample, synonyms = Some [],
                occurrences = Some (Finite 1), songTitle = None, songArtist = None\<rparr>)
     [lit ''shine'', lit ''bright'', lit ''like'']"
  by code_simp

theorem getFallbackVocabulary_entries_witness:
  "getFallbackVocabulary asciiLower (lit ''We shine bright like a diamond. Forever and ever.'')
     (Finite 3) (Finite 2) \<noteq> [] \<and>
   map occurrences (getFallbackVocabulary asciiLower
       (lit ''We shine bright like a diamond. Forever and ever.'') (Finite 3) (Finite 2)) =
     [Some (Finite 1), Some (Finite 1), Some (Finite 1)] \<and>
   map word (getFallbackVocabulary asciiLower
       (lit ''We shine bright like a diamond. Forever and ever.'') (Finite 3) (Finite 2)) =
     [lit ''shine'', lit ''bright'', lit ''like'']"
  using getFallbackVocabulary_entries [of asciiLower
      "lit ''We shine bright like a diamond. Forever and ever.''" "Finite 3" "Finite 2"]
  by (simp add: fallback_example)

text \<open>
  C3. The orchestrator fails if and only if the key is absent or empty, and then it has
  made no call. With a key: when the streaming attempt (call and parse) succeeds its
  entries are returned; when it fails and the structured call succeeds the entries of the
  second attempt are returned; when both fail the fallback extractor's list is returned.
\<close>

theorem createVocabularyFromLyrics_throws_only_without_key:
  "((GEMINI_API_KEY env = None \<or> GEMINI_API_KEY env = Some []) \<longleftrightarrow>
      (\<exists>e. snd (createVocabularyFromLyrics lc lyrics options env stream structured) = Inl e)) \<and>
   (GEMINI_API_KEY env = None \<or> GEMINI_API_KEY env = Some [] \<longrightarrow>
      createVocabularyFromLyrics lc lyrics options env stream structured = ([], Inl MissingApiKey)) \<and>
   (\<not> (GEMINI_API_KEY env = None \<or> GEMINI_API_KEY env = Some []) \<longrightarrow>
      (\<forall>entries.
         streamingAttempt lc stream (effectiveMaxWords options) (effectiveMinLength options) =
           Inr entries \<longrightarrow>
         createVocabularyFromLyrics lc lyrics options env stream structured =
           ([StreamingCall], Inr entries)) \<and>
      (\<forall>e items.
         streamingAttempt lc stream (effectiveMaxWords options) (effectiveMinLength options) =
           Inl e \<and> structured = Inr items \<longrightarrow>
         createVocabularyFromLyrics lc lyrics options env stream structured =
           ([StreamingCall, StructuredCall],
            Inr (structuredEntries items (effectiveMaxWords options) (effectiveMinLength options)))) \<and>
      (\<forall>e e2.
         streamingAttempt lc stream (effectiveMaxWords options) (effectiveMinLength options) =
           Inl e \<and> structured = Inl e2 \<longrightarrow>
         createVocabularyFromLyrics lc lyrics options env stream structured =
           ([StreamingCall, StructuredCall, FallbackRun],
            Inr (getFallbackVocabulary lc lyrics (effectiveMaxWords options)
                   (effectiveMinLength options)))))"
proof -
  let ?missing = "GEMINI_API_KEY env = None \<or> GEMINI_API_KEY env = Some []"
  let ?cv = "createVocabularyFromLyrics lc lyrics options env stream structured"
  let ?first = "streamingAttempt lc stream (effectiveMaxWords options) (effectiveMinLength options)"
  have m: "?cv = ([], Inl MissingApiKey)" if ?missing
    using that unfolding createVocabularyFromLyrics_def by (simp only: if_True)
  have u: "?cv =
      (case ?first of
         Inr entries \<Rightarrow> ([StreamingCall], Inr entries)
       | Inl e \<Rightarrow>
           (case structured of
              Inr items \<Rightarrow>
                ([StreamingCall, StructuredCall],
                 Inr (structuredEntries items (effectiveMaxWords options)
                        (effectiveMinLength options)))
            | Inl e2 \<Rightarrow>
                ([StreamingCall, StructuredCall, FallbackRun],
                 Inr (getFallbackVocabulary lc lyrics (effectiveMaxWords options)
                        (effectiveMinLength options)))))" if "\<not> ?missing"
    using that unfolding createVocabularyFromLyrics_def Let_def
    by (simp only: if_False)
  have ok: "\<exists>es. snd ?cv = Inr es" if "\<not> ?missing"
    unfolding u [OF that] by (cases ?first; cases structured; simp)
  have iff: "?missing \<longleftrightarrow> (\<exists>e. snd ?cv = Inl e)"
  proof
    assume ?missing
    from m [OF this] show "\<exists>e. snd ?cv = Inl e" by simp
  next
    assume l: "\<exists>e. snd ?cv = Inl e"
    show ?missing
    proof (rule ccontr)
      assume "\<not> ?missing"
      from ok [OF this] l show False by auto
    qed
  qed
  have a1: "?cv = ([StreamingCall], Inr entries)" if "\<not> ?missing" "?first = Inr entries" for entries
    unfolding u [OF that(1)] by (simp add: that(2))
  have a2: "?cv = ([StreamingCall, StructuredCall],
        Inr (structuredEntries items (effectiveMaxWords options) (effectiveMinLength options)))"
    if "\<not> ?missing" "?first = Inl e" "structured = Inr items" for e items
    unfolding u [OF that(1)] by (simp add: that(2,3))
  have a3: "?cv = ([StreamingCall, StructuredCall, FallbackRun],
        Inr (getFallbackVocabulary lc lyrics (effectiveMaxWords options)
               (effectiveMinLength options)))"
    if "\<not> ?missing" "?first = Inl e" "structured = Inl e2" for e e2
    unfolding u [OF that(1)] by (simp add: that(2,3))
  show ?thesis
    using iff m a1 a2 a3 by blast
qed

lemma invalid_text_attempt:
  "streamingAttempt asciiLower (Inr [lit ''not valid json array'']) (Finite 30) (Finite 2) =
     Inl InvalidJson"
  by code_simp

theorem createVocabularyFromLyrics_throws_only_without_key_witness:
  "createVocabularyFromLyrics asciiLower (lit ''lyrics'') defaultOptions
     (keyedEnv\<lparr>GEMINI_API_KEY := Some []\<rparr>) (Inr [lit ''not valid json array''])
     (Inl ModelFailure) = ([], Inl MissingApiKey) \<and>
   streamingAttempt asciiLower (Inr [lit ''not valid json array''])
     (effectiveMaxWords defaultOptions) (effectiveMinLength defaultOptions) = Inl InvalidJson \<and>
   createVocabularyFromLyrics asciiLower (lit ''lyrics'') defaultOptions keyedEnv
     (Inr [lit ''not valid json array'']) (Inl ModelFailure) =
     ([StreamingCall, StructuredCall, FallbackRun],
      Inr (getFallbackVocabulary asciiLower (lit ''lyrics'') (Finite 30) (Finite 2)))"
proof -
  have e: "effectiveMaxWords defaultOptions = Finite 30" "effectiveMinLength defaultOptions = Finite 2"
    by (simp_all add: effectiveMaxWords_def effectiveMinLength_def defaultOptions_def)
  have k: "GEMINI_API_KEY keyedEnv \<noteq> None" "GEMINI_API_KEY keyedEnv \<noteq> Some []"
    by (simp_all add: keyedEnv_def lit_def)
  from createVocabularyFromLyrics_throws_only_without_key
    [of "keyedEnv\<lparr>GEMINI_API_KEY := Some []\<rparr>" asciiLower "lit ''lyrics''" defaultOptions
        "Inr [lit ''not valid json array'']" "Inl ModelFailure"]
  have a: "createVocabularyFromLyrics asciiLower (lit ''lyrics'') defaultOptions
     (keyedEnv\<lparr>GEMINI_API_KEY := Some []\<rparr>) (Inr [lit ''not valid json array''])
     (Inl ModelFailure) = ([], Inl MissingApiKey)"
    by simp
  from createVocabularyFromLyrics_throws_only_without_key
    [of keyedEnv asciiLower "lit ''lyrics''" defaultOptions
        "Inr [lit ''not valid json array'']" "Inl ModelFailure"] k invalid_text_attempt
  have b: "createVocabularyFromLyrics asciiLower (lit ''lyrics'') defaultOptions keyedEnv
     (Inr [lit ''not valid json array'']) (Inl ModelFailure) =
     ([StreamingCall, StructuredCall, FallbackRun],
      Inr (getFallbackVocabulary asciiLower (lit ''lyrics'') (Finite 30) (Finite 2)))"
    by (simp add: e)
  from a b invalid_text_attempt show ?thesis by (simp add: e)
qed

text \<open>
  What holds of the second attempt: every entry has occurrences 1, and the list has at
  most \<open>maxWords\<close> entries when \<open>maxWords\<close> is at least 0.
\<close>

lemma structuredEntries_occurrences:
  assumes "e \<in> set (structuredEntries items maxWords' minLength')"
  shows "occurrences e = Some (Finite 1)"
proof -
  let ?all = "map (\<lambda>e. e\<lparr>word := trim (word e), occurrences := Some (Finite 1)\<rparr>)
          (filter (\<lambda>e. word e \<noteq> [] \<and> num_ge (toNumber (length (word e))) minLength')
             (case items of Some xs \<Rightarrow> xs | None \<Rightarrow> []))"
  obtain k where "structuredEntries items maxWords' minLength' = take k ?all"
    unfolding structuredEntries_def using slice0_take by blast
  with assms have "e \<in> set ?all" by (auto dest: in_set_takeD)
  then show ?thesis by auto
qed

lemma structuredEntries_length:
  "num_le (Finite 0) maxWords' \<Longrightarrow>
     num_le (toNumber (length (structuredEntries items maxWords' minLength'))) maxWords'"
  unfolding structuredEntries_def by (rule slice0_length)

text \<open>
  C5 (the code departs from the claim). The second attempt filters on the length of the
  untrimmed word and trims afterwards: the word \<open>" a "\<close> passes \<open>minLength = 2\<close>
  and is returned as \<open>"a"\<close>, of length 1. The first attempt trims before it filters.
\<close>

theorem structured_attempt_untrimmed_filter:
  "createVocabularyFromLyrics asciiLower (lit ''lyrics'')
     \<lparr>language = En, maxWords = Some (Finite 30), minLength = Some (Finite 2), level = None\<rparr>
     keyedEnv (Inl ModelFailure) (Inr (Some [entry (lit '' a '') None None])) =
     ([StreamingCall, StructuredCall], Inr [entry (lit ''a'') None (Some (Finite 1))]) \<and>
   \<not> num_ge (toNumber (length (word (entry (lit ''a'') None (Some (Finite 1)))))) (Finite 2)"
  by code_simp

subsection \<open>Lyrics extraction\<close>

text \<open>
  C6 (the code departs from the claim). Numeric references are decoded before the named
  ones, so \<open>&amp;#60;\<close> becomes \<open>&#60;\<close> and is not decoded again. Among the
  named ones \<open>&amp;\<close> is replaced first, so \<open>&amp;lt;\<close> becomes \<open>&lt;\<close> and
  then \<open><\<close>: it is decoded twice.
\<close>

theorem extractLyricsFromHtml_decodes_amp_lt_twice:
  "extractLyricsFromHtml (lit ''<div data-lyrics-container=\"true\">&amp;lt;</div>'') =
     Inr (lit ''<'') \<and>
   extractLyricsFromHtml (lit ''<div data-lyrics-container=\"true\">&amp;#60;</div>'') =
     Inr (lit ''&#60;'')"
  by code_simp


subsection \<open>Persistence upsert\<close>






























end
